theory Spec2Isabelle
  imports Main "HOL-Library.AList"
begin

section \<open>Python values and their string forms\<close>

text \<open>
  The values that cross the plugin's interface: what a cluster environment's methods return
  (\<open>None\<close>, an integer, a string), what a keyword argument of the constructor holds, and the
  list of device ids. Python's integers are unbounded, so they are \<open>int\<close>.
\<close>

datatype pyval =
    PyNone
  | PyBool bool
  | PyInt int
  | PyStr string
  | PyIntList "int list"

text \<open>Python's \<open>str\<close> on these values. Decimal digits of a natural number, most significant first.\<close>

fun str_nat :: "nat \<Rightarrow> string" where
  "str_nat n =
     (if n < 10 then [''0123456789'' ! n]
      else str_nat (n div 10) @ [''0123456789'' ! (n mod 10)])"

declare str_nat.simps [simp del]

definition str_int :: "int \<Rightarrow> string" where
  "str_int i = (if i < 0 then CHR ''-'' # str_nat (nat (- i)) else str_nat (nat i))"

fun join_str :: "string \<Rightarrow> string list \<Rightarrow> string" where
  "join_str sep [] = []"
| "join_str sep [s] = s"
| "join_str sep (s # t # ss) = s @ sep @ join_str sep (t # ss)"

fun py_str :: "pyval \<Rightarrow> string" where
  "py_str PyNone = ''None''"
| "py_str (PyBool b) = (if b then ''True'' else ''False'')"
| "py_str (PyInt i) = str_int i"
| "py_str (PyStr s) = s"
| "py_str (PyIntList xs) = ''['' @ join_str '', '' (map str_int xs) @ '']''"

section \<open>Dictionaries\<close>

text \<open>
  A Python \<open>dict\<close> keeps its keys in insertion order: an association list. Assignment
  \<open>d[k] = v\<close> overwrites the entry in place when the key is present and appends it otherwise,
  which is \<open>AList.update\<close>; \<open>d.get(k, default)\<close> is a lookup with a default.
\<close>

type_synonym 'v dict = "(string \<times> 'v) list"

definition keys :: "'v dict \<Rightarrow> string set" where
  "keys d = fst ` set d"

definition dict_get :: "'v dict \<Rightarrow> string \<Rightarrow> 'v \<Rightarrow> 'v" where
  "dict_get d k dflt = (case map_of d k of None \<Rightarrow> dflt | Some v \<Rightarrow> v)"

definition dict_setitem :: "'v dict \<Rightarrow> string \<Rightarrow> 'v \<Rightarrow> 'v dict" where
  "dict_setitem d k v = AList.update k v d"

section \<open>Exceptions\<close>

text \<open>
  The exceptions that Python itself or \<open>os.environ\<close> raises in the plugin's methods, and
  any other exception that a collaborator raises, by the name of its class. An exception
  ends the method where it is raised; the effects performed until then stay.
\<close>

datatype error = TypeError | ValueError | Raised string

section \<open>The world outside the plugin\<close>

text \<open>
  \<open>init_ddp_connection\<close> writes \<open>os.environ\<close>, logs, and talks to \<open>torch.distributed\<close>.
  The world holds the process environment, whether the default process group is
  initialized (what \<open>torch_distrib.is_initialized()\<close> answers), and the trace of the
  effects performed so far, oldest first.
\<close>

datatype event =
    EnvSet string string
  | LogInfo string
  | InitProcessGroup string int int

record world =
  environ :: "string dict"
  pg_initialized :: bool
  trace :: "event list"

text \<open>
  \<open>os.environ[k] = v\<close> hands the pair to the operating system, which takes neither a value
  nor a name with a NUL byte in it, nor a name that is empty or contains \<open>=\<close>: the
  assignment then raises \<open>ValueError\<close> and writes nothing.
\<close>

definition valid_env_name :: "string \<Rightarrow> bool" where
  "valid_env_name k = (k \<noteq> [] \<and> CHR ''='' \<notin> set k \<and> CHR 0x00 \<notin> set k)"

definition valid_env_value :: "string \<Rightarrow> bool" where
  "valid_env_value v = (CHR 0x00 \<notin> set v)"

definition environ_setitem :: "string \<Rightarrow> string \<Rightarrow> world \<Rightarrow> (error + unit) \<times> world" where
  "environ_setitem k v w =
     (if valid_env_name k \<and> valid_env_value v
      then (Inr (),
            w\<lparr>environ := dict_setitem (environ w) k v, trace := trace w @ [EnvSet k v]\<rparr>)
      else (Inl ValueError, w))"

definition log_info :: "string \<Rightarrow> world \<Rightarrow> world" where
  "log_info msg w = w\<lparr>trace := trace w @ [LogInfo msg]\<rparr>"

definition is_initialized :: "world \<Rightarrow> bool" where
  "is_initialized w = pg_initialized w"

text \<open>
  \<open>torch_distrib.init_process_group(backend, rank=..., world_size=...)\<close>: the call is
  recorded with its three arguments, and the process group counts as initialized afterwards.
\<close>

definition init_process_group :: "string \<Rightarrow> int \<Rightarrow> int \<Rightarrow> world \<Rightarrow> world" where
  "init_process_group backend rank wsize w =
     w\<lparr>pg_initialized := True, trace := trace w @ [InitProcessGroup backend rank wsize]\<rparr>"

text \<open>One statement after another: the second runs only if the first did not raise.\<close>

definition and_then ::
  "(world \<Rightarrow> (error + unit) \<times> world) \<Rightarrow> (world \<Rightarrow> (error + unit) \<times> world)
     \<Rightarrow> world \<Rightarrow> (error + unit) \<times> world" where
  "and_then f g w = (case f w of (Inl e, w') \<Rightarrow> (Inl e, w') | (Inr u, w') \<Rightarrow> g w')"

text \<open>The effects a call performed: the part of the trace added between two worlds.\<close>

definition emitted :: "world \<Rightarrow> world \<Rightarrow> event list" where
  "emitted w w' = drop (length (trace w)) (trace w')"

fun is_EnvSet :: "event \<Rightarrow> bool" where
  "is_EnvSet (EnvSet k v) = True"
| "is_EnvSet e = False"

fun is_InitProcessGroup :: "event \<Rightarrow> bool" where
  "is_InitProcessGroup (InitProcessGroup b r n) = True"
| "is_InitProcessGroup e = False"

section \<open>The collaborators\<close>

text \<open>
  The trainer is read for \<open>on_gpu\<close> only. A cluster environment is an object with three
  methods without arguments, and an optimizer is an object with a \<open>state_dict()\<close> method:
  each field holds what the method of that name returns when it is called.
\<close>

record trainer =
  on_gpu :: bool

record cluster_env =
  master_address :: pyval
  master_port :: pyval
  world_size :: pyval

record 'd optimizer =
  state_dict :: "'d"

text \<open>
  The string forms of the three results are values that the environment takes.
\<close>

definition string_forms_valid :: "cluster_env \<Rightarrow> bool" where
  "string_forms_valid ce =
     (valid_env_value (py_str (master_address ce))
      \<and> valid_env_value (py_str (master_port ce))
      \<and> valid_env_value (py_str (world_size ce)))"

section \<open>DDPPlugin\<close>

record ddp_plugin =
  ddp_kwargs :: "pyval dict"

text \<open>\<open>__init__(self, **kwargs)\<close>: the keyword arguments are stored as they are.\<close>

definition DDPPlugin :: "pyval dict \<Rightarrow> ddp_plugin" where
  "DDPPlugin kwargs = \<lparr>ddp_kwargs = kwargs\<rparr>"

text \<open>
  A call \<open>f(model, device_ids=device_ids, **kwargs)\<close> binds the written keyword first and
  then the entries of the unpacked dictionary. Python raises \<open>TypeError\<close> at the call,
  before \<open>f\<close> runs, when the dictionary repeats a keyword that is written out.
\<close>

definition keyword_arguments :: "string \<Rightarrow> 'v \<Rightarrow> 'v dict \<Rightarrow> error + 'v dict" where
  "keyword_arguments k v kwargs =
     (if k \<in> keys kwargs
      then Inl TypeError
      else Inr ((k, v) # kwargs))"

text \<open>
  \<open>configure_ddp(self, model, device_ids)\<close>. The wrapper class
  \<open>LightningDistributedDataParallel\<close> lives in another module: its constructor is the
  parameter \<open>LDDP\<close>, applied to the positional argument and the keyword arguments of the call.
  The constructor gives a wrapper or raises (for a keyword it does not know, or one that
  names its positional parameter again), and what it raises leaves \<open>configure_ddp\<close> as it is.
  The method assigns into \<open>self._ddp_kwargs\<close>, so the plugin is returned with the result.
\<close>

definition configure_ddp ::
  "('m \<Rightarrow> pyval dict \<Rightarrow> error + 'w) \<Rightarrow> ddp_plugin \<Rightarrow> 'm \<Rightarrow> int list
     \<Rightarrow> (error + 'w) \<times> ddp_plugin" where
  "configure_ddp LDDP self model device_ids =
     (let self' = self\<lparr>ddp_kwargs :=
            dict_setitem (ddp_kwargs self) ''find_unused_parameters''
              (dict_get (ddp_kwargs self) ''find_unused_parameters'' (PyBool True))\<rparr>
      in case keyword_arguments ''device_ids'' (PyIntList device_ids) (ddp_kwargs self') of
           Inl e \<Rightarrow> (Inl e, self')
         | Inr kw \<Rightarrow> (LDDP model kw, self'))"

text \<open>
  A constructor for the examples: it takes every keyword and gives the arguments it
  received as the wrapper.
\<close>

definition recording_wrapper :: "'m \<Rightarrow> pyval dict \<Rightarrow> error + ('m \<times> pyval dict)" where
  "recording_wrapper model kw = Inr (model, kw)"

text \<open>
  \<open>init_ddp_connection(self, trainer, cluster_environment, global_rank, world_size,
  is_slurm_managing_tasks=True)\<close>, statement by statement. The method returns \<open>None\<close>, or
  raises what an assignment to \<open>os.environ\<close> raises; the world is returned as the method
  leaves it in either case.
\<close>

definition init_ddp_connection ::
  "ddp_plugin \<Rightarrow> trainer \<Rightarrow> cluster_env \<Rightarrow> int \<Rightarrow> int \<Rightarrow> bool \<Rightarrow> world
     \<Rightarrow> (error + unit) \<times> world" where
  "init_ddp_connection self trainer cluster_environment global_rank wsize
      is_slurm_managing_tasks =
     and_then (environ_setitem ''MASTER_ADDR'' (py_str (master_address cluster_environment)))
    (and_then (environ_setitem ''MASTER_PORT'' (py_str (master_port cluster_environment)))
    (and_then (environ_setitem ''WORLD_SIZE'' (py_str (world_size cluster_environment)))
      (\<lambda>w3.
         let torch_backend = (if on_gpu trainer then ''nccl'' else ''gloo'')
         in if \<not> is_initialized w3
            then (Inr (),
                  init_process_group torch_backend global_rank wsize
                    (log_info (''initializing ddp: GLOBAL_RANK: '' @ str_int global_rank
                       @ '', MEMBER: '' @ str_int (global_rank + 1) @ ''/''
                       @ str_int wsize) w3))
            else (Inr (), w3))))"

text \<open>\<open>on_before_forward(self, model, *args)\<close>: the tuple of the further arguments.\<close>

definition on_before_forward :: "ddp_plugin \<Rightarrow> 'm \<Rightarrow> 'a list \<Rightarrow> 'a list" where
  "on_before_forward self model args = args"

text \<open>\<open>optimizer_state(self, optimizer)\<close>.\<close>

definition optimizer_state :: "ddp_plugin \<Rightarrow> 'd optimizer \<Rightarrow> 'd" where
  "optimizer_state self optimizer = state_dict optimizer"

section \<open>What the calls do, as equations\<close>

lemma py_str_examples:
  "py_str (PyInt 29500) = ''29500''"
  "py_str (PyInt (- 12)) = ''-12''"
  "py_str (PyIntList [0, 1, 22]) = ''[0, 1, 22]''"
  "py_str PyNone = ''None''"
  by (simp_all add: str_int_def str_nat.simps)

lemma map_of_dict_setitem:
  "map_of (dict_setitem d k v) k' = (if k' = k then Some v else map_of d k')"
  by (simp add: dict_setitem_def update_conv')

lemma keys_dict_setitem: "keys (dict_setitem d k v) = insert k (keys d)"
  by (simp add: keys_def dict_setitem_def AList.dom_update)

lemma map_of_eq_None_keys: "map_of d k = None \<longleftrightarrow> k \<notin> keys d"
  by (simp add: keys_def map_of_eq_None_iff)

lemma set_update_fresh:
  "k \<notin> fst ` set d \<Longrightarrow> set (AList.update k v d) = insert (k, v) (set d)"
  by (induction d) auto

text \<open>Storing back what \<open>get\<close> found loses no entry of the dictionary.\<close>

lemma set_dict_setitem_get: "set d \<subseteq> set (dict_setitem d k (dict_get d k dflt))"
proof (cases "map_of d k")
  case None
  then have "k \<notin> fst ` set d"
    by (simp add: map_of_eq_None_iff)
  then show ?thesis
    by (auto simp: dict_setitem_def set_update_fresh)
next
  case (Some v)
  then show ?thesis
    by (simp add: dict_setitem_def dict_get_def update_triv)
qed

lemma valid_env_names:
  "valid_env_name ''MASTER_ADDR''" "valid_env_name ''MASTER_PORT''"
  "valid_env_name ''WORLD_SIZE''"
  by (simp_all add: valid_env_name_def)

text \<open>
  The effects of a call, in every case: the writes up to the first value that the
  environment refuses, and after three writes the log line and the call of
  \<open>init_process_group\<close>, unless the process group is initialized.
\<close>

lemma emitted_init_ddp_connection:
  "emitted w (snd (init_ddp_connection self tr ce gr ws b w)) =
     (if \<not> valid_env_value (py_str (master_address ce)) then []
      else EnvSet ''MASTER_ADDR'' (py_str (master_address ce)) #
       (if \<not> valid_env_value (py_str (master_port ce)) then []
        else EnvSet ''MASTER_PORT'' (py_str (master_port ce)) #
         (if \<not> valid_env_value (py_str (world_size ce)) then []
          else EnvSet ''WORLD_SIZE'' (py_str (world_size ce)) #
           (if is_initialized w then []
            else [LogInfo (''initializing ddp: GLOBAL_RANK: '' @ str_int gr
                    @ '', MEMBER: '' @ str_int (gr + 1) @ ''/'' @ str_int ws),
                  InitProcessGroup (if on_gpu tr then ''nccl'' else ''gloo'') gr ws]))))"
  by (simp add: emitted_def init_ddp_connection_def and_then_def environ_setitem_def
      valid_env_names Let_def log_info_def init_process_group_def is_initialized_def)

lemma environ_init_ddp_connection:
  "string_forms_valid ce \<Longrightarrow>
   environ (snd (init_ddp_connection self tr ce gr ws b w)) =
     dict_setitem (dict_setitem (dict_setitem (environ w)
       ''MASTER_ADDR'' (py_str (master_address ce)))
       ''MASTER_PORT'' (py_str (master_port ce)))
       ''WORLD_SIZE'' (py_str (world_size ce))"
  by (simp add: string_forms_valid_def init_ddp_connection_def and_then_def
      environ_setitem_def valid_env_names Let_def log_info_def init_process_group_def
      is_initialized_def)

lemma fst_configure_ddp:
  "fst (configure_ddp LDDP self model device_ids) =
     (if ''device_ids'' \<in> keys (ddp_kwargs self) then Inl TypeError
      else LDDP model ((''device_ids'', PyIntList device_ids) #
             dict_setitem (ddp_kwargs self) ''find_unused_parameters''
               (dict_get (ddp_kwargs self) ''find_unused_parameters'' (PyBool True))))"
  by (simp add: configure_ddp_def Let_def keyword_arguments_def keys_dict_setitem)

lemma snd_configure_ddp:
  "ddp_kwargs (snd (configure_ddp LDDP self model device_ids)) =
     dict_setitem (ddp_kwargs self) ''find_unused_parameters''
       (dict_get (ddp_kwargs self) ''find_unused_parameters'' (PyBool True))"
  by (simp add: configure_ddp_def Let_def split: sum.splits)

section \<open>The process group is initialized at most once\<close>

text \<open>
  C1, as amended. A call of \<open>init_ddp_connection\<close> calls \<open>init_process_group\<close> exactly once
  when the process group is not initialized yet and the three environment writes succeed
  (no string form holds a NUL byte), and not at all otherwise: the call stands under
  \<open>if not torch_distrib.is_initialized()\<close>, after the three writes.
\<close>

theorem init_process_group_call_count:
  "length (filter is_InitProcessGroup
     (emitted w (snd (init_ddp_connection self tr ce gr ws b w)))) =
   (if \<not> is_initialized w \<and> string_forms_valid ce then 1 else 0)"
  by (simp add: emitted_init_ddp_connection string_forms_valid_def)

text \<open>
  C1 as stated (one call whether or not the group is initialized) fails in a world whose
  process group is initialized: the call count there is not one.
\<close>

theorem init_process_group_not_called_when_initialized:
  "length (filter is_InitProcessGroup
     (emitted \<lparr>environ = [], pg_initialized = True, trace = []\<rparr>
        (snd (init_ddp_connection (DDPPlugin []) \<lparr>on_gpu = False\<rparr>
           \<lparr>master_address = PyStr ''127.0.0.1'', master_port = PyInt 29500,
            world_size = PyInt 2\<rparr> 0 2 True
           \<lparr>environ = [], pg_initialized = True, trace = []\<rparr>)))) \<noteq> 1"
  by (simp add: emitted_init_ddp_connection is_initialized_def)

section \<open>The wrapper's constructor receives the model, the device ids and the stored arguments\<close>

text \<open>
  C2, as amended. For every keyword-argument dictionary without a \<open>device_ids\<close> key, every
  model and every list of device ids, \<open>configure_ddp\<close> calls the constructor of the wrapper
  with the model as positional argument and with keyword arguments that hold \<open>device_ids\<close>,
  every stored constructor argument, and beyond these only \<open>find_unused_parameters\<close>; it
  returns the wrapper that the constructor returns, and raises what the constructor raises.
\<close>

theorem configure_ddp_forwards_arguments:
  assumes "''device_ids'' \<notin> keys kwargs"
  shows "\<exists>kw. fst (configure_ddp LDDP (DDPPlugin kwargs) model device_ids) = LDDP model kw
            \<and> map_of kw ''device_ids'' = Some (PyIntList device_ids)
            \<and> set kwargs \<subseteq> set kw
            \<and> keys kw = insert ''device_ids'' (insert ''find_unused_parameters'' (keys kwargs))"
proof -
  let ?kw = "(''device_ids'', PyIntList device_ids) #
             dict_setitem kwargs ''find_unused_parameters''
               (dict_get kwargs ''find_unused_parameters'' (PyBool True))"
  have "fst (configure_ddp LDDP (DDPPlugin kwargs) model device_ids) = LDDP model ?kw"
    using assms by (simp add: fst_configure_ddp DDPPlugin_def)
  moreover have "map_of ?kw ''device_ids'' = Some (PyIntList device_ids)"
    by simp
  moreover have "set kwargs \<subseteq> set ?kw"
    using set_dict_setitem_get [of kwargs] by auto
  moreover have "keys ?kw = insert ''device_ids'' (insert ''find_unused_parameters'' (keys kwargs))"
    using keys_dict_setitem [of kwargs] by (simp add: keys_def)
  ultimately show ?thesis by blast
qed

text \<open>
  The theorem at \<open>DDPPlugin(bucket_cap_mb=25).configure_ddp(net, [0, 1])\<close>, with a
  constructor that takes every keyword.
\<close>

theorem configure_ddp_forwards_arguments_witness:
  "''device_ids'' \<notin> keys [(''bucket_cap_mb'', PyInt 25)]
   \<and> (\<exists>kw. fst (configure_ddp recording_wrapper
                  (DDPPlugin [(''bucket_cap_mb'', PyInt 25)]) ''net'' [0, 1])
              = Inr (''net'', kw)
          \<and> map_of kw ''device_ids'' = Some (PyIntList [0, 1])
          \<and> map_of kw ''bucket_cap_mb'' = Some (PyInt 25))"
proof -
  have h: "''device_ids'' \<notin> keys [(''bucket_cap_mb'', PyInt 25)]"
    by (simp add: keys_def)
  from configure_ddp_forwards_arguments [OF h, of recording_wrapper "''net''" "[0, 1]"]
  obtain kw where
    kw: "fst (configure_ddp recording_wrapper
                (DDPPlugin [(''bucket_cap_mb'', PyInt 25)]) ''net'' [0, 1])
              = recording_wrapper ''net'' kw"
        "map_of kw ''device_ids'' = Some (PyIntList [0, 1])"
    by blast
  from kw(1) have "kw = [(''device_ids'', PyIntList [0, 1]), (''bucket_cap_mb'', PyInt 25),
       (''find_unused_parameters'', PyBool True)]"
    by (simp add: fst_configure_ddp DDPPlugin_def keys_def dict_setitem_def dict_get_def
        recording_wrapper_def)
  with kw h show ?thesis by (simp add: recording_wrapper_def)
qed

text \<open>
  C2 as stated (for every keyword-argument dictionary) fails at
  \<open>DDPPlugin(device_ids=[1]).configure_ddp(net, [0])\<close>: the call repeats the keyword
  \<open>device_ids\<close>, Python raises \<open>TypeError\<close>, and no wrapper is constructed or returned,
  even by a constructor that takes every keyword.
\<close>

theorem configure_ddp_device_ids_twice:
  "fst (configure_ddp recording_wrapper (DDPPlugin [(''device_ids'', PyIntList [1])])
         ''net'' [0])
     = Inl TypeError"
  by (simp add: fst_configure_ddp DDPPlugin_def keys_def)

section \<open>The environment variables\<close>

text \<open>
  C3, as amended. Every call of \<open>init_ddp_connection\<close> in which the string forms of what the
  cluster environment's \<open>master_address()\<close>, \<open>master_port()\<close> and \<open>world_size()\<close> return hold
  no NUL byte sets exactly the three environment variables \<open>MASTER_ADDR\<close>, \<open>MASTER_PORT\<close>
  and \<open>WORLD_SIZE\<close>, to these string forms, and sets no other variable: every other name
  reads as before the call, and the writes to the environment that the call performs are
  these three.
\<close>

theorem init_ddp_connection_sets_three_variables:
  assumes "string_forms_valid ce"
  shows "map_of (environ (snd (init_ddp_connection self tr ce gr ws b w))) k =
     (if k = ''MASTER_ADDR'' then Some (py_str (master_address ce))
      else if k = ''MASTER_PORT'' then Some (py_str (master_port ce))
      else if k = ''WORLD_SIZE'' then Some (py_str (world_size ce))
      else map_of (environ w) k)
   \<and> filter is_EnvSet (emitted w (snd (init_ddp_connection self tr ce gr ws b w))) =
       [EnvSet ''MASTER_ADDR'' (py_str (master_address ce)),
        EnvSet ''MASTER_PORT'' (py_str (master_port ce)),
        EnvSet ''WORLD_SIZE'' (py_str (world_size ce))]"
proof
  show "map_of (environ (snd (init_ddp_connection self tr ce gr ws b w))) k =
     (if k = ''MASTER_ADDR'' then Some (py_str (master_address ce))
      else if k = ''MASTER_PORT'' then Some (py_str (master_port ce))
      else if k = ''WORLD_SIZE'' then Some (py_str (world_size ce))
      else map_of (environ w) k)"
    by (simp add: environ_init_ddp_connection [OF assms] map_of_dict_setitem)
next
  from assms show
    "filter is_EnvSet (emitted w (snd (init_ddp_connection self tr ce gr ws b w))) =
       [EnvSet ''MASTER_ADDR'' (py_str (master_address ce)),
        EnvSet ''MASTER_PORT'' (py_str (master_port ce)),
        EnvSet ''WORLD_SIZE'' (py_str (world_size ce))]"
    by (simp add: emitted_init_ddp_connection string_forms_valid_def)
qed

text \<open>
  The theorem for the address \<open>node1\<close>, the port 12910 and the world size 2, in an
  environment that holds \<open>HOME\<close> and an older \<open>MASTER_PORT\<close>.
\<close>

theorem init_ddp_connection_sets_three_variables_witness:
  "string_forms_valid
     \<lparr>master_address = PyStr ''node1'', master_port = PyInt 12910, world_size = PyInt 2\<rparr>
   \<and> map_of (environ (snd (init_ddp_connection (DDPPlugin []) \<lparr>on_gpu = False\<rparr>
        \<lparr>master_address = PyStr ''node1'', master_port = PyInt 12910, world_size = PyInt 2\<rparr>
        0 2 True
        \<lparr>environ = [(''HOME'', ''/root''), (''MASTER_PORT'', ''1'')],
         pg_initialized = False, trace = []\<rparr>))) ''MASTER_PORT'' = Some ''12910''
   \<and> map_of (environ (snd (init_ddp_connection (DDPPlugin []) \<lparr>on_gpu = False\<rparr>
        \<lparr>master_address = PyStr ''node1'', master_port = PyInt 12910, world_size = PyInt 2\<rparr>
        0 2 True
        \<lparr>environ = [(''HOME'', ''/root''), (''MASTER_PORT'', ''1'')],
         pg_initialized = False, trace = []\<rparr>))) ''HOME'' = Some ''/root''"
proof -
  have s: "str_int 12910 = ''12910''" "str_int 2 = ''2''"
    by (simp_all add: str_int_def str_nat.simps)
  have h: "string_forms_valid
     \<lparr>master_address = PyStr ''node1'', master_port = PyInt 12910, world_size = PyInt 2\<rparr>"
    by (simp add: string_forms_valid_def valid_env_value_def s)
  note T = init_ddp_connection_sets_three_variables [OF h, of "DDPPlugin []"
      "\<lparr>on_gpu = False\<rparr>" 0 2 True
      "\<lparr>environ = [(''HOME'', ''/root''), (''MASTER_PORT'', ''1'')],
         pg_initialized = False, trace = []\<rparr>"]
  from T [of "''MASTER_PORT''"] T [of "''HOME''"] h s show ?thesis
    by simp
qed

text \<open>
  C3 as stated (for every call) fails when \<open>master_port()\<close> returns a string with a NUL
  byte: the assignment to \<open>MASTER_PORT\<close> raises \<open>ValueError\<close>, so the call has written
  \<open>MASTER_ADDR\<close> only, and \<open>WORLD_SIZE\<close> stays unset.
\<close>

theorem init_ddp_connection_stops_at_refused_value:
  "fst (init_ddp_connection (DDPPlugin []) \<lparr>on_gpu = False\<rparr>
        \<lparr>master_address = PyStr ''node1'',
         master_port = PyStr [CHR ''1'', CHR ''2'', CHR 0x00, CHR ''9'', CHR ''1'', CHR ''0''],
         world_size = PyInt 2\<rparr> 0 2 True
        \<lparr>environ = [], pg_initialized = False, trace = []\<rparr>) = Inl ValueError
   \<and> environ (snd (init_ddp_connection (DDPPlugin []) \<lparr>on_gpu = False\<rparr>
        \<lparr>master_address = PyStr ''node1'',
         master_port = PyStr [CHR ''1'', CHR ''2'', CHR 0x00, CHR ''9'', CHR ''1'', CHR ''0''],
         world_size = PyInt 2\<rparr> 0 2 True
        \<lparr>environ = [], pg_initialized = False, trace = []\<rparr>))
       = [(''MASTER_ADDR'', ''node1'')]"
  by (simp add: init_ddp_connection_def and_then_def environ_setitem_def valid_env_name_def
      valid_env_value_def dict_setitem_def)

section \<open>The arguments of init_process_group\<close>

text \<open>
  C4. Whenever \<open>init_ddp_connection\<close> calls \<open>init_process_group\<close>, the rank passed is its
  \<open>global_rank\<close> argument, the world size passed is its \<open>world_size\<close> argument, and the backend
  is \<open>nccl\<close> if \<open>trainer.on_gpu\<close> holds and \<open>gloo\<close> otherwise; and with a process group that is
  not initialized, after three environment writes that succeed, the call with these
  arguments is made.
\<close>

theorem init_process_group_arguments:
  "(InitProcessGroup backend rank n
      \<in> set (emitted w (snd (init_ddp_connection self tr ce gr ws b w)))
     \<longrightarrow> backend = (if on_gpu tr then ''nccl'' else ''gloo'') \<and> rank = gr \<and> n = ws)
   \<and> (\<not> is_initialized w \<and> string_forms_valid ce \<longrightarrow>
        InitProcessGroup (if on_gpu tr then ''nccl'' else ''gloo'') gr ws
          \<in> set (emitted w (snd (init_ddp_connection self tr ce gr ws b w))))"
  by (simp add: emitted_init_ddp_connection string_forms_valid_def)

text \<open>
  The theorem on a GPU trainer, rank 2 of 4, no process group yet: the call is made, and its
  backend is \<open>nccl\<close>.
\<close>

theorem init_process_group_arguments_witness:
  "\<not> is_initialized \<lparr>environ = [], pg_initialized = False, trace = []\<rparr>
   \<and> string_forms_valid
       \<lparr>master_address = PyStr ''127.0.0.1'', master_port = PyStr ''29500'',
        world_size = PyNone\<rparr>
   \<and> InitProcessGroup ''nccl'' 2 4
       \<in> set (emitted \<lparr>environ = [], pg_initialized = False, trace = []\<rparr>
           (snd (init_ddp_connection (DDPPlugin []) \<lparr>on_gpu = True\<rparr>
              \<lparr>master_address = PyStr ''127.0.0.1'', master_port = PyStr ''29500'',
               world_size = PyNone\<rparr> 2 4 True
              \<lparr>environ = [], pg_initialized = False, trace = []\<rparr>)))"
proof -
  have h: "\<not> is_initialized \<lparr>environ = [], pg_initialized = False, trace = []\<rparr>
      \<and> string_forms_valid
       \<lparr>master_address = PyStr ''127.0.0.1'', master_port = PyStr ''29500'',
        world_size = PyNone\<rparr>"
    by (simp add: is_initialized_def string_forms_valid_def valid_env_value_def)
  have "InitProcessGroup (if on_gpu \<lparr>on_gpu = True\<rparr> then ''nccl'' else ''gloo'') 2 4
       \<in> set (emitted \<lparr>environ = [], pg_initialized = False, trace = []\<rparr>
           (snd (init_ddp_connection (DDPPlugin []) \<lparr>on_gpu = True\<rparr>
              \<lparr>master_address = PyStr ''127.0.0.1'', master_port = PyStr ''29500'',
               world_size = PyNone\<rparr> 2 4 True
              \<lparr>environ = [], pg_initialized = False, trace = []\<rparr>)))"
    by (rule init_process_group_arguments [THEN conjunct2, THEN mp, OF h])
  with h show ?thesis by simp
qed

section \<open>The two hooks\<close>

text \<open>
  C5. The pre-forward hook is a passthrough: for every model and every tuple of positional
  arguments, \<open>on_before_forward\<close> returns the arguments unchanged.
\<close>

theorem on_before_forward_returns_args:
  "on_before_forward self model args = args"
  by (simp add: on_before_forward_def)

text \<open>
  C6. For every optimizer, \<open>optimizer_state\<close> returns exactly what the optimizer's
  \<open>state_dict()\<close> returns.
\<close>

theorem optimizer_state_returns_state_dict:
  "optimizer_state self optimizer = state_dict optimizer"
  by (simp add: optimizer_state_def)

section \<open>The environment is written before the process group is initialized\<close>

text \<open>
  C7. In every execution of \<open>init_ddp_connection\<close>, wherever the call of
  \<open>init_process_group\<close> stands among the effects of the execution, the three writes of
  \<open>MASTER_ADDR\<close>, \<open>MASTER_PORT\<close> and \<open>WORLD_SIZE\<close> stand before it, and no write to the
  environment comes after it.
\<close>

theorem environ_written_before_init_process_group:
  assumes "emitted w (snd (init_ddp_connection self tr ce gr ws b w)) =
            pre @ InitProcessGroup backend rank n # post"
  shows "EnvSet ''MASTER_ADDR'' (py_str (master_address ce)) \<in> set pre
       \<and> EnvSet ''MASTER_PORT'' (py_str (master_port ce)) \<in> set pre
       \<and> EnvSet ''WORLD_SIZE'' (py_str (world_size ce)) \<in> set pre
       \<and> filter is_EnvSet post = []"
  using assms
  by (auto simp: emitted_init_ddp_connection Cons_eq_append_conv split: if_splits)

text \<open>The theorem on a CPU trainer, rank 0 of 2, no process group yet.\<close>

theorem environ_written_before_init_process_group_witness:
  "emitted \<lparr>environ = [], pg_initialized = False, trace = []\<rparr>
     (snd (init_ddp_connection (DDPPlugin []) \<lparr>on_gpu = False\<rparr>
        \<lparr>master_address = PyStr ''node1'', master_port = PyStr ''12910'',
         world_size = PyNone\<rparr> 0 2 True
        \<lparr>environ = [], pg_initialized = False, trace = []\<rparr>)) =
     [EnvSet ''MASTER_ADDR'' ''node1'', EnvSet ''MASTER_PORT'' ''12910'',
      EnvSet ''WORLD_SIZE'' ''None'',
      LogInfo ''initializing ddp: GLOBAL_RANK: 0, MEMBER: 1/2'']
     @ InitProcessGroup ''gloo'' 0 2 # []
   \<and> EnvSet ''MASTER_ADDR'' ''node1''
       \<in> set [EnvSet ''MASTER_ADDR'' ''node1'', EnvSet ''MASTER_PORT'' ''12910'',
              EnvSet ''WORLD_SIZE'' ''None'',
              LogInfo ''initializing ddp: GLOBAL_RANK: 0, MEMBER: 1/2'']
   \<and> filter is_EnvSet [] = []"
proof -
  have h: "emitted \<lparr>environ = [], pg_initialized = False, trace = []\<rparr>
     (snd (init_ddp_connection (DDPPlugin []) \<lparr>on_gpu = False\<rparr>
        \<lparr>master_address = PyStr ''node1'', master_port = PyStr ''12910'',
         world_size = PyNone\<rparr> 0 2 True
        \<lparr>environ = [], pg_initialized = False, trace = []\<rparr>)) =
     [EnvSet ''MASTER_ADDR'' ''node1'', EnvSet ''MASTER_PORT'' ''12910'',
      EnvSet ''WORLD_SIZE'' ''None'',
      LogInfo ''initializing ddp: GLOBAL_RANK: 0, MEMBER: 1/2'']
     @ InitProcessGroup ''gloo'' 0 2 # []"
    by (simp add: emitted_init_ddp_connection is_initialized_def valid_env_value_def
        str_int_def str_nat.simps)
  from environ_written_before_init_process_group [OF h] h show ?thesis
    by simp
qed

section \<open>The default of find_unused_parameters\<close>

text \<open>
  C8, as amended. If the constructor's keyword arguments have no \<open>device_ids\<close> key, the
  wrapper's constructor is called, and it receives \<open>find_unused_parameters=True\<close> if the
  keyword arguments do not contain \<open>find_unused_parameters\<close>, and the given value unchanged
  if they do. After every call of \<open>configure_ddp\<close>, also one that raises, the plugin's stored
  dictionary contains a \<open>find_unused_parameters\<close> entry: the call mutates the dictionary.
\<close>

theorem configure_ddp_find_unused_parameters:
  "(''device_ids'' \<notin> keys kwargs \<longrightarrow>
      (\<exists>kw. fst (configure_ddp LDDP (DDPPlugin kwargs) model device_ids) = LDDP model kw
          \<and> (''find_unused_parameters'' \<notin> keys kwargs \<longrightarrow>
                map_of kw ''find_unused_parameters'' = Some (PyBool True))
          \<and> (\<forall>v. map_of kwargs ''find_unused_parameters'' = Some v \<longrightarrow>
                map_of kw ''find_unused_parameters'' = Some v)))
   \<and> ''find_unused_parameters''
         \<in> keys (ddp_kwargs (snd (configure_ddp LDDP (DDPPlugin kwargs) model device_ids)))"
proof (intro conjI impI)
  assume h: "''device_ids'' \<notin> keys kwargs"
  let ?kw = "(''device_ids'', PyIntList device_ids) #
             dict_setitem kwargs ''find_unused_parameters''
               (dict_get kwargs ''find_unused_parameters'' (PyBool True))"
  have "fst (configure_ddp LDDP (DDPPlugin kwargs) model device_ids) = LDDP model ?kw"
    using h by (simp add: fst_configure_ddp DDPPlugin_def)
  moreover have "''find_unused_parameters'' \<notin> keys kwargs \<longrightarrow>
      map_of ?kw ''find_unused_parameters'' = Some (PyBool True)"
    by (simp add: map_of_dict_setitem dict_get_def flip: map_of_eq_None_keys)
  moreover have "\<forall>v. map_of kwargs ''find_unused_parameters'' = Some v \<longrightarrow>
      map_of ?kw ''find_unused_parameters'' = Some v"
    by (simp add: map_of_dict_setitem dict_get_def)
  ultimately show
    "\<exists>kw. fst (configure_ddp LDDP (DDPPlugin kwargs) model device_ids) = LDDP model kw
          \<and> (''find_unused_parameters'' \<notin> keys kwargs \<longrightarrow>
                map_of kw ''find_unused_parameters'' = Some (PyBool True))
          \<and> (\<forall>v. map_of kwargs ''find_unused_parameters'' = Some v \<longrightarrow>
                map_of kw ''find_unused_parameters'' = Some v)"
    by blast
next
  show "''find_unused_parameters''
         \<in> keys (ddp_kwargs (snd (configure_ddp LDDP (DDPPlugin kwargs) model device_ids)))"
    by (simp add: snd_configure_ddp DDPPlugin_def keys_dict_setitem)
qed

text \<open>
  The theorem at \<open>DDPPlugin(bucket_cap_mb=25)\<close>, where the default is taken, and at
  \<open>DDPPlugin(find_unused_parameters=False)\<close>, where the given value is passed on.
\<close>

theorem configure_ddp_find_unused_parameters_witness:
  "''device_ids'' \<notin> keys [(''bucket_cap_mb'', PyInt 25)]
   \<and> ''find_unused_parameters'' \<notin> keys [(''bucket_cap_mb'', PyInt 25)]
   \<and> (\<exists>kw. fst (configure_ddp recording_wrapper
                  (DDPPlugin [(''bucket_cap_mb'', PyInt 25)]) ''net'' [0])
              = Inr (''net'', kw)
          \<and> map_of kw ''find_unused_parameters'' = Some (PyBool True))
   \<and> ''device_ids'' \<notin> keys [(''find_unused_parameters'', PyBool False)]
   \<and> map_of [(''find_unused_parameters'', PyBool False)] ''find_unused_parameters''
        = Some (PyBool False)
   \<and> (\<exists>kw. fst (configure_ddp recording_wrapper
                  (DDPPlugin [(''find_unused_parameters'', PyBool False)]) ''net'' [0])
              = Inr (''net'', kw)
          \<and> map_of kw ''find_unused_parameters'' = Some (PyBool False))
   \<and> ''find_unused_parameters''
        \<in> keys (ddp_kwargs (snd (configure_ddp recording_wrapper
                   (DDPPlugin [(''bucket_cap_mb'', PyInt 25)]) ''net'' [0])))"
proof -
  have a1: "''device_ids'' \<notin> keys [(''bucket_cap_mb'', PyInt 25)]"
    and a2: "''find_unused_parameters'' \<notin> keys [(''bucket_cap_mb'', PyInt 25)]"
    and b1: "''device_ids'' \<notin> keys [(''find_unused_parameters'', PyBool False)]"
    by (simp_all add: keys_def)
  have b2: "map_of [(''find_unused_parameters'', PyBool False)] ''find_unused_parameters''
        = Some (PyBool False)"
    by simp
  note A = configure_ddp_find_unused_parameters
             [of "[(''bucket_cap_mb'', PyInt 25)]" recording_wrapper "''net''" "[0]",
              unfolded recording_wrapper_def]
  note B = configure_ddp_find_unused_parameters
             [of "[(''find_unused_parameters'', PyBool False)]" recording_wrapper "''net''" "[0]",
              unfolded recording_wrapper_def]
  have "\<exists>kw. fst (configure_ddp recording_wrapper
                  (DDPPlugin [(''bucket_cap_mb'', PyInt 25)]) ''net'' [0])
              = Inr (''net'', kw)
          \<and> map_of kw ''find_unused_parameters'' = Some (PyBool True)"
    unfolding recording_wrapper_def using A a1 a2 by blast
  moreover have
    "\<exists>kw. fst (configure_ddp recording_wrapper
                  (DDPPlugin [(''find_unused_parameters'', PyBool False)]) ''net'' [0])
              = Inr (''net'', kw)
          \<and> map_of kw ''find_unused_parameters'' = Some (PyBool False)"
    unfolding recording_wrapper_def using B b1 b2 by blast
  moreover have "''find_unused_parameters''
        \<in> keys (ddp_kwargs (snd (configure_ddp recording_wrapper
                   (DDPPlugin [(''bucket_cap_mb'', PyInt 25)]) ''net'' [0])))"
    unfolding recording_wrapper_def using A by blast
  ultimately show ?thesis
    using a1 a2 b1 b2 by blast
qed

text \<open>
  C8 as stated fails at \<open>DDPPlugin(device_ids=[1], bucket_cap_mb=25).configure_ddp(net, [0])\<close>:
  the keyword arguments do not contain \<open>find_unused_parameters\<close>, and nothing is passed to
  the wrapper, because the call raises \<open>TypeError\<close> for the repeated keyword \<open>device_ids\<close>.
\<close>

theorem configure_ddp_default_not_passed_on_clash:
  "''find_unused_parameters'' \<notin> keys [(''device_ids'', PyIntList [1]), (''bucket_cap_mb'', PyInt 25)]
   \<and> fst (configure_ddp recording_wrapper
            (DDPPlugin [(''device_ids'', PyIntList [1]), (''bucket_cap_mb'', PyInt 25)])
            ''net'' [0]) = Inl TypeError"
  by (simp add: fst_configure_ddp DDPPlugin_def keys_def)

section \<open>An initialized process group does not stop the environment writes\<close>

text \<open>
  C9, as amended. When the process group is already initialized, \<open>init_ddp_connection\<close>
  does not call \<open>init_process_group\<close>; and if the string forms of the cluster environment's
  three results hold no NUL byte, \<open>MASTER_ADDR\<close>, \<open>MASTER_PORT\<close> and \<open>WORLD_SIZE\<close> are still
  overwritten with them.
\<close>

theorem environ_written_when_initialized:
  "is_initialized w \<longrightarrow>
     filter is_InitProcessGroup
       (emitted w (snd (init_ddp_connection self tr ce gr ws b w))) = []
     \<and> (string_forms_valid ce \<longrightarrow>
          map_of (environ (snd (init_ddp_connection self tr ce gr ws b w))) ''MASTER_ADDR''
             = Some (py_str (master_address ce))
        \<and> map_of (environ (snd (init_ddp_connection self tr ce gr ws b w))) ''MASTER_PORT''
             = Some (py_str (master_port ce))
        \<and> map_of (environ (snd (init_ddp_connection self tr ce gr ws b w))) ''WORLD_SIZE''
             = Some (py_str (world_size ce)))"
  by (simp add: emitted_init_ddp_connection environ_init_ddp_connection map_of_dict_setitem)

text \<open>
  The theorem in a world whose process group is initialized and whose environment holds
  older values of two of the variables.
\<close>

theorem environ_written_when_initialized_witness:
  "is_initialized
     \<lparr>environ = [(''MASTER_ADDR'', ''10.0.0.1''), (''WORLD_SIZE'', ''8'')],
      pg_initialized = True, trace = []\<rparr>
   \<and> string_forms_valid
       \<lparr>master_address = PyStr ''node1'', master_port = PyStr ''12910'',
        world_size = PyInt 2\<rparr>
   \<and> map_of (environ (snd (init_ddp_connection (DDPPlugin []) \<lparr>on_gpu = True\<rparr>
        \<lparr>master_address = PyStr ''node1'', master_port = PyStr ''12910'',
         world_size = PyInt 2\<rparr> 1 2 False
        \<lparr>environ = [(''MASTER_ADDR'', ''10.0.0.1''), (''WORLD_SIZE'', ''8'')],
         pg_initialized = True, trace = []\<rparr>))) ''MASTER_ADDR'' = Some ''node1''
   \<and> map_of (environ (snd (init_ddp_connection (DDPPlugin []) \<lparr>on_gpu = True\<rparr>
        \<lparr>master_address = PyStr ''node1'', master_port = PyStr ''12910'',
         world_size = PyInt 2\<rparr> 1 2 False
        \<lparr>environ = [(''MASTER_ADDR'', ''10.0.0.1''), (''WORLD_SIZE'', ''8'')],
         pg_initialized = True, trace = []\<rparr>))) ''WORLD_SIZE'' = Some ''2''"
proof -
  have h: "is_initialized
     \<lparr>environ = [(''MASTER_ADDR'', ''10.0.0.1''), (''WORLD_SIZE'', ''8'')],
      pg_initialized = True, trace = []\<rparr>"
    by (simp add: is_initialized_def)
  have s: "str_int 2 = ''2''"
    by (simp add: str_int_def str_nat.simps)
  have v: "string_forms_valid
       \<lparr>master_address = PyStr ''node1'', master_port = PyStr ''12910'',
        world_size = PyInt 2\<rparr>"
    by (simp add: string_forms_valid_def valid_env_value_def s)
  from environ_written_when_initialized [of
      "\<lparr>environ = [(''MASTER_ADDR'', ''10.0.0.1''), (''WORLD_SIZE'', ''8'')],
         pg_initialized = True, trace = []\<rparr>" "DDPPlugin []" "\<lparr>on_gpu = True\<rparr>"
      "\<lparr>master_address = PyStr ''node1'', master_port = PyStr ''12910'',
         world_size = PyInt 2\<rparr>" 1 2 False] h v s
  show ?thesis by simp
qed

text \<open>
  C9 as stated fails when \<open>master_address()\<close> returns a string with a NUL byte: the first
  assignment raises \<open>ValueError\<close>, \<open>MASTER_ADDR\<close> keeps its older value, and
  \<open>MASTER_PORT\<close> is not written, although the process group is initialized.
\<close>

theorem environ_not_written_after_refused_value:
  "is_initialized \<lparr>environ = [(''MASTER_ADDR'', ''10.0.0.1'')], pg_initialized = True,
                   trace = []\<rparr>
   \<and> environ (snd (init_ddp_connection (DDPPlugin []) \<lparr>on_gpu = True\<rparr>
        \<lparr>master_address = PyStr [CHR ''n'', CHR 0x00, CHR ''1''],
         master_port = PyStr ''12910'', world_size = PyInt 2\<rparr> 1 2 True
        \<lparr>environ = [(''MASTER_ADDR'', ''10.0.0.1'')], pg_initialized = True, trace = []\<rparr>))
       = [(''MASTER_ADDR'', ''10.0.0.1'')]"
  by (simp add: is_initialized_def init_ddp_connection_def and_then_def environ_setitem_def
      valid_env_name_def valid_env_value_def)

section \<open>The parameter is_slurm_managing_tasks is not read\<close>

text \<open>
  C10. Two calls of \<open>init_ddp_connection\<close> that differ only in \<open>is_slurm_managing_tasks\<close>
  have the same outcome and leave the same world: the same environment, the same decision
  about \<open>init_process_group\<close>, and the same arguments passed to it.
\<close>

theorem init_ddp_connection_ignores_is_slurm_managing_tasks:
  "init_ddp_connection self tr ce gr ws b1 w = init_ddp_connection self tr ce gr ws b2 w"
  by (simp add: init_ddp_connection_def)

end
